theory Spec2Isabelle
  imports Main
begin

section \<open>The user service of \<open>web/app.py\<close>\<close>

text \<open>
  The service keeps one table \<open>users\<close> in PostgreSQL and one key \<open>all_users\<close> in Redis.
  Every handler of \<open>app.py\<close> becomes a function from the world before the request to the
  response and the world after it. The world holds what the two servers store and whether
  they answer; a test may change the reachability fields between two requests.

  Standing conventions of the model:
  \<^item> a request body is the parsed JSON object, a map from field names to strings, so that
    \<open>data.get('username')\<close> is \<open>data ''username''\<close> (\<open>None\<close> for a missing or null field);
  \<^item> handlers run one at a time; a handler's calls happen at one instant \<open>now\<close>;
  \<^item> the table is the list of its rows in the order a scan returns them: an insert adds
    its row at the end, and an update writes the new version of a row after all others;
  \<^item> the cache holds the list that \<open>str\<close> wrote and \<open>eval\<close> reads back, as a JSON value:
    the two calls are inverse on lists of dictionaries of integers and strings, and the
    text \<open>str\<close> writes is never empty, so the test \<open>if cached_users\<close> succeeds on
    every entry that is present;
  \<^item> the sequence behind \<open>id SERIAL\<close> hands out the integers up to 2147483647 and
    raises after that.
\<close>

subsection \<open>Values\<close>

record user =
  uid :: int
  username :: string
  email :: string

datatype exc = IntegrityError | DataError | RedisConnectionError

datatype json =
    Null
  | Num int
  | Str string
  | Str_of exc
  | Arr "json list"
  | Obj "(string \<times> json) list"
  | Flask_error_page

type_synonym response = "json \<times> nat"

type_synonym body = "string \<rightharpoonup> string"

datatype sql =
    INSERT "string option" "string option"
  | SELECT_ALL
  | SELECT_BY_ID int
  | UPDATE "string option" "string option" int
  | DELETE int

text \<open>
  \<open>db_up\<close>: \<open>psycopg2.connect\<close> succeeds. \<open>users\<close>: the committed rows.
  \<open>users_id_seq\<close>: the next value of the sequence. \<open>statements\<close>: every statement a
  cursor executed, oldest first (the call-count instrumentation of the store).
  \<open>redis_client\<close>: the module's global is not \<open>None\<close> (the ping at start-up succeeded).
  \<open>redis_up\<close>: a call on the client returns rather than raises. \<open>redis\<close>: the keys with
  their values and the instant each expires.
\<close>

record world =
  db_up :: bool
  users :: "user list"
  users_id_seq :: int
  statements :: "sql list"
  redis_client :: bool
  redis_up :: bool
  redis :: "string \<rightharpoonup> json \<times> nat"

definition init_world :: world where
  "init_world =
     \<lparr>db_up = True, users = [], users_id_seq = 1, statements = [],
      redis_client = True, redis_up = True, redis = Map.empty\<rparr>"

definition jsonify :: "json \<Rightarrow> response" where
  "jsonify x = (x, 200)"

fun py_not :: "string option \<Rightarrow> bool" where
  "py_not None = True"
| "py_not (Some s) = (s = [])"

fun of_param :: "string option \<Rightarrow> json" where
  "of_param None = Null"
| "of_param (Some s) = Str s"

definition row_dict :: "user \<Rightarrow> json" where
  "row_dict row = Obj [(''id'', Num (uid row)), (''username'', Str (username row)), (''email'', Str (email row))]"

subsection \<open>The store: table \<open>users\<close> of \<open>init_db\<close>\<close>

text \<open>
  \<open>username VARCHAR(80)\<close>, \<open>email VARCHAR(120)\<close>: storing a longer string is an error
  unless the excess is all spaces, which is cut off. A null parameter stays null here and
  meets \<open>NOT NULL\<close> when a row is written.
\<close>

definition varchar :: "nat \<Rightarrow> string option \<Rightarrow> exc + string option" where
  "varchar n v =
     (case v of
        None \<Rightarrow> Inr None
      | Some s \<Rightarrow>
          if length s \<le> n then Inr (Some s)
          else if list_all (\<lambda>c. c = CHR '' '') (drop n s) then Inr (Some (take n s))
          else Inl DataError)"

text \<open>A connection is the table as its open transaction sees it.\<close>

type_synonym conn = "user list"

definition get_db_connection :: "world \<Rightarrow> conn option" where
  "get_db_connection w = (if db_up w then Some (users w) else None)"

definition commit :: "conn \<Rightarrow> world \<Rightarrow> world" where
  "commit conn w = w\<lparr>users := conn\<rparr>"

definition rollback :: "conn \<Rightarrow> world \<Rightarrow> conn" where
  "rollback conn w = users w"

definition close :: "conn \<Rightarrow> world \<Rightarrow> world" where
  "close conn w = w"

definition logged :: "sql \<Rightarrow> world \<Rightarrow> world" where
  "logged q w = w\<lparr>statements := statements w @ [q]\<rparr>"

text \<open>
  \<open>INSERT INTO users (username, email) VALUES (%s, %s) RETURNING id\<close>. The values are
  fitted to their columns first, then the sequence gives the id, then the constraints are
  checked. An exhausted sequence raises a data error. The sequence moves on also when the
  row is refused; a refused statement leaves the table as it was.
\<close>

definition execute_insert ::
  "string option \<Rightarrow> string option \<Rightarrow> conn \<Rightarrow> world \<Rightarrow> (exc + int) \<times> conn \<times> world" where
  "execute_insert un em conn w =
     (let w0 = logged (INSERT un em) w in
      case varchar 80 un of
        Inl e \<Rightarrow> (Inl e, conn, w0)
      | Inr un' \<Rightarrow>
          (case varchar 120 em of
             Inl e \<Rightarrow> (Inl e, conn, w0)
           | Inr em' \<Rightarrow>
               if 2147483647 < users_id_seq w0 then (Inl DataError, conn, w0)
               else
                 (let new_id = users_id_seq w0;
                      w1 = w0\<lparr>users_id_seq := new_id + 1\<rparr>
                  in case (un', em') of
                       (Some u, Some e) \<Rightarrow>
                         if new_id \<in> set (map uid conn) \<or> u \<in> set (map username conn)
                            \<or> e \<in> set (map email conn)
                         then (Inl IntegrityError, conn, w1)
                         else (Inr new_id, conn @ [\<lparr>uid = new_id, username = u, email = e\<rparr>], w1)
                     | _ \<Rightarrow> (Inl IntegrityError, conn, w1))))"

text \<open>\<open>SELECT id, username, email FROM users\<close> with \<open>fetchall\<close>.\<close>

definition execute_select_all :: "conn \<Rightarrow> world \<Rightarrow> user list \<times> world" where
  "execute_select_all conn w = (conn, logged SELECT_ALL w)"

text \<open>\<open>SELECT id, username, email FROM users WHERE id = %s\<close> with \<open>fetchone\<close>.\<close>

definition execute_select_by_id :: "int \<Rightarrow> conn \<Rightarrow> world \<Rightarrow> user option \<times> world" where
  "execute_select_by_id user_id conn w =
     (find (\<lambda>row. uid row = user_id) conn, logged (SELECT_BY_ID user_id) w)"

text \<open>
  \<open>UPDATE users SET username = %s, email = %s WHERE id = %s RETURNING id\<close>, giving
  \<open>rowcount\<close>. Both columns are assigned, whatever the parameters are. The constraints
  are checked on the rows the statement writes, so they are silent when no row matches.
  The new version of the row is written after the rows that stay as they are.
\<close>

definition execute_update ::
  "string option \<Rightarrow> string option \<Rightarrow> int \<Rightarrow> conn \<Rightarrow> world \<Rightarrow> (exc + nat) \<times> conn \<times> world" where
  "execute_update un em user_id conn w =
     (let w0 = logged (UPDATE un em user_id) w in
      case varchar 80 un of
        Inl e \<Rightarrow> (Inl e, conn, w0)
      | Inr un' \<Rightarrow>
          (case varchar 120 em of
             Inl e \<Rightarrow> (Inl e, conn, w0)
           | Inr em' \<Rightarrow>
               if filter (\<lambda>row. uid row = user_id) conn = [] then (Inr 0, conn, w0)
               else
                 (case (un', em') of
                    (Some u, Some e) \<Rightarrow>
                      if list_ex (\<lambda>row. uid row \<noteq> user_id \<and> (username row = u \<or> email row = e)) conn
                         \<or> 1 < length (filter (\<lambda>row. uid row = user_id) conn)
                      then (Inl IntegrityError, conn, w0)
                      else (Inr (length (filter (\<lambda>row. uid row = user_id) conn)),
                            filter (\<lambda>row. uid row \<noteq> user_id) conn
                              @ map (\<lambda>row. row\<lparr>username := u, email := e\<rparr>)
                                  (filter (\<lambda>row. uid row = user_id) conn),
                            w0)
                  | _ \<Rightarrow> (Inl IntegrityError, conn, w0))))"

text \<open>\<open>DELETE FROM users WHERE id = %s\<close>, giving \<open>rowcount\<close>.\<close>

definition execute_delete :: "int \<Rightarrow> conn \<Rightarrow> world \<Rightarrow> nat \<times> conn \<times> world" where
  "execute_delete user_id conn w =
     (length (filter (\<lambda>row. uid row = user_id) conn),
      filter (\<lambda>row. uid row \<noteq> user_id) conn,
      logged (DELETE user_id) w)"

subsection \<open>The cache: the Redis client\<close>

text \<open>The value under a key that has not expired at \<open>now\<close>.\<close>

definition live :: "string \<Rightarrow> nat \<Rightarrow> world \<Rightarrow> json option" where
  "live k now w =
     (case redis w k of
        None \<Rightarrow> None
      | Some (v, expires) \<Rightarrow> if now < expires then Some v else None)"

definition redis_get :: "string \<Rightarrow> nat \<Rightarrow> world \<Rightarrow> exc + json option" where
  "redis_get k now w = (if redis_up w then Inr (live k now w) else Inl RedisConnectionError)"

definition redis_set :: "string \<Rightarrow> json \<Rightarrow> nat \<Rightarrow> nat \<Rightarrow> world \<Rightarrow> exc + world" where
  "redis_set k v ex now w =
     (if redis_up w then Inr (w\<lparr>redis := (redis w)(k \<mapsto> (v, now + ex))\<rparr>)
      else Inl RedisConnectionError)"

definition redis_delete :: "string \<Rightarrow> world \<Rightarrow> exc + world" where
  "redis_delete k w =
     (if redis_up w then Inr (w\<lparr>redis := (redis w)(k := None)\<rparr>)
      else Inl RedisConnectionError)"

subsection \<open>The handlers\<close>

text \<open>
  The \<open>except\<close> clauses of \<open>create_user\<close> and \<open>update_user\<close>, in their order, and the
  single clause of the other handlers. Each is followed by \<open>conn.rollback()\<close> where the
  source has it, and by \<open>conn.close()\<close>.
\<close>

fun except_integrity :: "exc \<Rightarrow> response" where
  "except_integrity IntegrityError = (Obj [(''error'', Str ''Username or Email already exists'')], 409)"
| "except_integrity e = (Obj [(''error'', Str_of e)], 500)"

definition except_exception :: "exc \<Rightarrow> response" where
  "except_exception e = (Obj [(''error'', Str_of e)], 500)"

text \<open>\<open>POST /users\<close>\<close>

definition create_user :: "body \<Rightarrow> world \<Rightarrow> response \<times> world" where
  "create_user data w =
     (let username = data ''username''; email = data ''email'' in
      if py_not username \<or> py_not email
      then ((Obj [(''error'', Str ''Missing username or email'')], 400), w)
      else
        (case get_db_connection w of
           None \<Rightarrow> ((Obj [(''error'', Str ''Database unavailable'')], 503), w)
         | Some conn \<Rightarrow>
             (case execute_insert username email conn w of
                (Inr user_id, conn1, w1) \<Rightarrow>
                  (let w2 = commit conn1 w1 in
                   ((Obj [(''id'', Num user_id), (''username'', of_param username),
                          (''email'', of_param email)], 201),
                    close conn1 w2))
              | (Inl e, conn1, w1) \<Rightarrow>
                  (except_integrity e, close (rollback conn1 w1) w1))))"

text \<open>\<open>GET /users\<close>: lines 141 to 158 first, then the handler with its cache probe.\<close>

definition list_users_db :: "nat \<Rightarrow> world \<Rightarrow> response \<times> world" where
  "list_users_db now w =
     (case get_db_connection w of
        None \<Rightarrow> ((Obj [(''error'', Str ''Database unavailable'')], 503), w)
      | Some conn \<Rightarrow>
          (case execute_select_all conn w of
             (rows, w1) \<Rightarrow>
               (let users = Arr (map row_dict rows) in
                if redis_client w1
                then
                  (case redis_set ''all_users'' users 30 now w1 of
                     Inl e \<Rightarrow> (except_exception e, close conn w1)
                   | Inr w2 \<Rightarrow> (jsonify users, close conn w2))
                else (jsonify users, close conn w1))))"

definition list_users :: "nat \<Rightarrow> world \<Rightarrow> response \<times> world" where
  "list_users now w =
     (if redis_client w
      then
        (case redis_get ''all_users'' now w of
           Inl e \<Rightarrow> ((Flask_error_page, 500), w)
         | Inr (Some cached_users) \<Rightarrow> (jsonify cached_users, w)
         | Inr None \<Rightarrow> list_users_db now w)
      else list_users_db now w)"

text \<open>\<open>GET /users/<id>\<close>\<close>

definition get_user :: "int \<Rightarrow> world \<Rightarrow> response \<times> world" where
  "get_user user_id w =
     (case get_db_connection w of
        None \<Rightarrow> ((Obj [(''error'', Str ''Database unavailable'')], 503), w)
      | Some conn \<Rightarrow>
          (case execute_select_by_id user_id conn w of
             (Some row, w1) \<Rightarrow> (jsonify (row_dict row), close conn w1)
           | (None, w1) \<Rightarrow> ((Obj [(''error'', Str ''User not found'')], 404), close conn w1)))"

text \<open>\<open>PUT /users/<id>\<close>\<close>

definition update_user :: "int \<Rightarrow> body \<Rightarrow> world \<Rightarrow> response \<times> world" where
  "update_user user_id data w =
     (let username = data ''username''; email = data ''email'' in
      if py_not username \<and> py_not email
      then ((Obj [(''error'', Str ''No data provided for update'')], 400), w)
      else
        (case get_db_connection w of
           None \<Rightarrow> ((Obj [(''error'', Str ''Database unavailable'')], 503), w)
         | Some conn \<Rightarrow>
             (case execute_update username email user_id conn w of
                (Inr rowcount, conn1, w1) \<Rightarrow>
                  if rowcount = 0
                  then ((Obj [(''error'', Str ''User not found'')], 404),
                        close (rollback conn1 w1) w1)
                  else
                    (let w2 = commit conn1 w1 in
                     if redis_client w2
                     then
                       (case redis_delete ''all_users'' w2 of
                          Inl e \<Rightarrow> (except_integrity e, close (rollback conn1 w2) w2)
                        | Inr w3 \<Rightarrow>
                            (jsonify (Obj [(''id'', Num user_id), (''message'', Str ''User updated'')]),
                             close conn1 w3))
                     else
                       (jsonify (Obj [(''id'', Num user_id), (''message'', Str ''User updated'')]),
                        close conn1 w2))
              | (Inl e, conn1, w1) \<Rightarrow>
                  (except_integrity e, close (rollback conn1 w1) w1))))"

text \<open>\<open>DELETE /users/<id>\<close>\<close>

definition delete_user :: "int \<Rightarrow> world \<Rightarrow> response \<times> world" where
  "delete_user user_id w =
     (case get_db_connection w of
        None \<Rightarrow> ((Obj [(''error'', Str ''Database unavailable'')], 503), w)
      | Some conn \<Rightarrow>
          (case execute_delete user_id conn w of
             (rowcount, conn1, w1) \<Rightarrow>
               if rowcount = 0
               then ((Obj [(''error'', Str ''User not found'')], 404),
                     close (rollback conn1 w1) w1)
               else
                 (let w2 = commit conn1 w1 in
                  if redis_client w2
                  then
                    (case redis_delete ''all_users'' w2 of
                       Inl e \<Rightarrow> (except_exception e, close (rollback conn1 w2) w2)
                     | Inr w3 \<Rightarrow>
                         (jsonify (Obj [(''id'', Num user_id), (''message'', Str ''User deleted'')]),
                          close conn1 w3))
                  else
                    (jsonify (Obj [(''id'', Num user_id), (''message'', Str ''User deleted'')]),
                     close conn1 w2))))"

subsection \<open>Invariant, example requests and example worlds\<close>

text \<open>Every stored id was handed out by the sequence, so the sequence's next value is new.\<close>

definition ids_issued :: "world \<Rightarrow> bool" where
  "ids_issued w = list_all (\<lambda>row. uid row < users_id_seq w) (users w)"

definition alice :: body where
  "alice = [''username'' \<mapsto> ''alice'', ''email'' \<mapsto> ''a@x.com'']"

definition alice_row :: user where
  "alice_row = \<lparr>uid = 1, username = ''alice'', email = ''a@x.com''\<rparr>"

definition bob :: body where
  "bob = [''username'' \<mapsto> ''bob'', ''email'' \<mapsto> ''b@x.com'']"

definition only_bob :: body where
  "only_bob = [''username'' \<mapsto> ''bob'']"

definition same_name :: body where
  "same_name = [''username'' \<mapsto> ''alice'', ''email'' \<mapsto> ''other@x.com'']"

text \<open>Alice's username again, with an email of 121 characters.\<close>

definition same_name_long_email :: body where
  "same_name_long_email = [''username'' \<mapsto> ''alice'', ''email'' \<mapsto> replicate 121 (CHR ''x'')]"

text \<open>A username of 81 characters, the last one a space.\<close>

definition padded :: body where
  "padded = [''username'' \<mapsto> replicate 80 (CHR ''p'') @ '' '', ''email'' \<mapsto> ''p@x.com'']"

text \<open>The world after a first list request, at instant 0, on the empty table.\<close>

definition w_listed :: world where
  "w_listed = snd (list_users 0 init_world)"

text \<open>Alice is stored and listed in a snapshot that expires at 30; both servers answer.\<close>

definition w_alice :: world where
  "w_alice =
     \<lparr>db_up = True, users = [alice_row], users_id_seq = 2, statements = [],
      redis_client = True, redis_up = True,
      redis = [''all_users'' \<mapsto> (Arr [row_dict alice_row], 30)]\<rparr>"

text \<open>The same, after Redis has stopped answering: the client object is still there.\<close>

definition w_redis_down :: world where
  "w_redis_down = w_alice\<lparr>redis_up := False\<rparr>"

text \<open>Alice and Carol are stored, nothing is cached, both servers answer.\<close>

definition w_two :: world where
  "w_two =
     \<lparr>db_up = True,
      users = [\<lparr>uid = 1, username = ''alice'', email = ''a@x.com''\<rparr>,
               \<lparr>uid = 2, username = ''carol'', email = ''c@x.com''\<rparr>],
      users_id_seq = 3, statements = [],
      redis_client = True, redis_up = True, redis = Map.empty\<rparr>"

section \<open>Properties\<close>

subsection \<open>Auxiliary facts\<close>

lemmas store_defs = get_db_connection_def commit_def rollback_def close_def logged_def
  execute_insert_def execute_select_all_def execute_select_by_id_def execute_update_def
  execute_delete_def varchar_def Let_def

lemmas cache_defs = live_def redis_get_def redis_set_def redis_delete_def

lemma except_integrity_status: "snd (except_integrity e) \<noteq> 200"
  by (cases e) simp_all

lemma no_row_with_id: "k \<notin> set (map uid rows) \<Longrightarrow> filter (\<lambda>row. uid row = k) rows = []"
  by (auto simp: filter_empty_conv)

lemma some_row_with_id: "k \<in> set (map uid rows) \<Longrightarrow> filter (\<lambda>row. uid row = k) rows \<noteq> []"
  by (auto simp: filter_empty_conv)

lemma find_fresh_row:
  "k \<notin> set (map uid rows) \<Longrightarrow> uid r = k \<Longrightarrow> find (\<lambda>row. uid row = k) (rows @ [r]) = Some r"
  by (induction rows) auto

lemma ids_issued_fresh: "ids_issued w \<Longrightarrow> users_id_seq w \<notin> set (map uid (users w))"
  by (auto simp: ids_issued_def list_all_iff)

text \<open>What each handler does on the paths the claims speak of, as equations.\<close>

lemma create_user_created:
  assumes "db_up w" "data ''username'' = Some un" "data ''email'' = Some em"
    and "un \<noteq> []" "em \<noteq> []" "length un \<le> 80" "length em \<le> 120"
    and "un \<notin> set (map username (users w))" "em \<notin> set (map email (users w))"
    and "users_id_seq w \<notin> set (map uid (users w))" "users_id_seq w \<le> 2147483647"
  shows "create_user data w =
     ((Obj [(''id'', Num (users_id_seq w)), (''username'', Str un), (''email'', Str em)], 201),
      w\<lparr>users := users w @ [\<lparr>uid = users_id_seq w, username = un, email = em\<rparr>],
        users_id_seq := users_id_seq w + 1,
        statements := statements w @ [INSERT (Some un) (Some em)]\<rparr>)"
  using assms by (simp add: create_user_def store_defs)

lemma create_user_refused:
  assumes "db_up w" "data ''username'' = Some un" "data ''email'' = Some em"
    and "un \<noteq> []" "em \<noteq> []" "length un \<le> 80" "length em \<le> 120"
    and "un \<in> set (map username (users w)) \<or> em \<in> set (map email (users w))"
    and "users_id_seq w \<le> 2147483647"
  shows "create_user data w =
     ((Obj [(''error'', Str ''Username or Email already exists'')], 409),
      w\<lparr>users_id_seq := users_id_seq w + 1,
        statements := statements w @ [INSERT (Some un) (Some em)]\<rparr>)"
  using assms by (auto simp add: create_user_def store_defs)

lemma get_user_found:
  assumes "db_up w" "find (\<lambda>row. uid row = k) (users w) = Some r"
  shows "get_user k w = ((row_dict r, 200), logged (SELECT_BY_ID k) w)"
  using assms by (simp add: get_user_def store_defs jsonify_def)

lemma list_users_hit:
  assumes "redis_client w" "redis_up w" "live ''all_users'' now w = Some v"
  shows "list_users now w = ((v, 200), w)"
  using assms by (simp add: list_users_def redis_get_def jsonify_def)

lemma list_users_miss:
  assumes "redis_client w" "redis_up w" "live ''all_users'' now w = None" "db_up w"
  shows "list_users now w =
     ((Arr (map row_dict (users w)), 200),
      w\<lparr>statements := statements w @ [SELECT_ALL],
        redis := (redis w)(''all_users'' \<mapsto> (Arr (map row_dict (users w)), now + 30))\<rparr>)"
  using assms
  by (simp add: list_users_def list_users_db_def redis_get_def redis_set_def jsonify_def store_defs)

lemma list_users_no_client:
  assumes "\<not> redis_client w" "db_up w"
  shows "list_users now w = ((Arr (map row_dict (users w)), 200), logged SELECT_ALL w)"
  using assms by (simp add: list_users_def list_users_db_def jsonify_def store_defs)

lemma update_user_rejected:
  assumes "db_up w" "k \<in> set (map uid (users w))" "v \<noteq> []"
    and "(data ''username'' = Some v \<and> data ''email'' = None \<and> length v \<le> 80) \<or>
         (data ''username'' = None \<and> data ''email'' = Some v \<and> length v \<le> 120)"
  shows "update_user k data w =
     ((Obj [(''error'', Str ''Username or Email already exists'')], 409),
      logged (UPDATE (data ''username'') (data ''email'') k) w)"
  using assms(1,3,4) some_row_with_id [OF assms(2)]
  by (auto simp add: update_user_def store_defs)

lemma delete_user_not_found:
  assumes "db_up w" "k \<notin> set (map uid (users w))"
  shows "delete_user k w = ((Obj [(''error'', Str ''User not found'')], 404), logged (DELETE k) w)"
  using assms(1) no_row_with_id [OF assms(2)] by (simp add: delete_user_def store_defs)

text \<open>\<open>create_user\<close> has no call on the Redis client; the two sibling handlers have one.\<close>

lemma create_user_redis: "redis (snd (create_user data w)) = redis w"
  by (auto simp: create_user_def store_defs split: option.splits sum.splits prod.splits)

lemma update_user_invalidates:
  assumes "redis_client w" "redis_up w" "snd (fst (update_user k data w)) = 200"
  shows "redis (snd (update_user k data w)) ''all_users'' = None"
  using assms
  apply (simp add: update_user_def get_db_connection_def Let_def split: if_splits)
  apply (simp add: execute_update_def Let_def commit_def rollback_def close_def logged_def
      redis_delete_def jsonify_def split: sum.splits option.splits if_splits)
  apply (auto simp: except_integrity_status)
  done

lemma delete_user_invalidates:
  assumes "redis_client w" "redis_up w" "snd (fst (delete_user k w)) = 200"
  shows "redis (snd (delete_user k w)) ''all_users'' = None"
  using assms
  by (simp add: delete_user_def store_defs redis_delete_def jsonify_def split: if_splits)

text \<open>The invariant holds at start-up and every handler keeps it.\<close>

lemma ids_issued_init: "ids_issued init_world"
  by (simp add: ids_issued_def init_world_def)

lemma ids_issued_list_users: "ids_issued w \<Longrightarrow> ids_issued (snd (list_users now w))"
  by (auto simp: ids_issued_def list_users_def list_users_db_def store_defs cache_defs
      split: option.splits sum.splits)

lemma ids_issued_get_user: "ids_issued w \<Longrightarrow> ids_issued (snd (get_user k w))"
  by (auto simp: ids_issued_def get_user_def store_defs split: option.splits)

lemma ids_issued_delete_user: "ids_issued w \<Longrightarrow> ids_issued (snd (delete_user k w))"
  by (auto simp: ids_issued_def list_all_iff delete_user_def store_defs cache_defs)

lemma execute_insert_ids:
  assumes "execute_insert un em conn w = (r, conn', w')"
    and "list_all (\<lambda>row. uid row < users_id_seq w) conn"
  shows "list_all (\<lambda>row. uid row < users_id_seq w') conn'"
proof (cases "varchar 80 un")
  case (Inl e)
  with assms show ?thesis by (auto simp add: execute_insert_def logged_def Let_def)
next
  case un': (Inr a)
  show ?thesis
  proof (cases "varchar 120 em")
    case (Inl e)
    with un' assms show ?thesis by (auto simp add: execute_insert_def logged_def Let_def)
  next
    case em': (Inr b)
    have weaker: "list_all (\<lambda>row. uid row < users_id_seq w + 1) conn"
      using assms(2) by (auto simp: list_all_iff)
    show ?thesis
    proof (cases a)
      case None
      with un' em' assms weaker show ?thesis
        by (auto simp add: execute_insert_def logged_def Let_def split: if_splits)
    next
      case a: (Some u)
      show ?thesis
      proof (cases b)
        case None
        with a un' em' assms weaker show ?thesis
          by (auto simp add: execute_insert_def logged_def Let_def split: if_splits)
      next
        case (Some e)
        with a un' em' assms weaker show ?thesis
          by (auto simp add: execute_insert_def logged_def Let_def split: if_splits)
      qed
    qed
  qed
qed

lemma execute_insert_users:
  "execute_insert un em conn w = (r, conn', w') \<Longrightarrow> users w' = users w"
  by (auto simp: execute_insert_def logged_def Let_def split: sum.splits option.splits if_splits)

lemma ids_issued_create_user: "ids_issued w \<Longrightarrow> ids_issued (snd (create_user data w))"
proof -
  assume inv: "ids_issued w"
  show ?thesis
  proof (cases "py_not (data ''username'') \<or> py_not (data ''email'') \<or> \<not> db_up w")
    case True
    with inv show ?thesis
      by (auto simp: create_user_def get_db_connection_def Let_def)
  next
    case False
    obtain r conn' w' where ex: "execute_insert (data ''username'') (data ''email'') (users w) w = (r, conn', w')"
      by (cases "execute_insert (data ''username'') (data ''email'') (users w) w") auto
    have c: "list_all (\<lambda>row. uid row < users_id_seq w') conn'"
      using execute_insert_ids [OF ex] inv by (simp add: ids_issued_def)
    have u: "list_all (\<lambda>row. uid row < users_id_seq w') (users w')"
    proof -
      have "users_id_seq w \<le> users_id_seq w'"
        using ex by (auto simp: execute_insert_def logged_def Let_def split: sum.splits option.splits if_splits)
      moreover have "users w' = users w" using execute_insert_users [OF ex] .
      ultimately show ?thesis using inv by (auto simp: ids_issued_def list_all_iff)
    qed
    show ?thesis
    proof (cases r)
      case (Inl e)
      with False ex u show ?thesis
        by (simp add: create_user_def get_db_connection_def Let_def close_def rollback_def ids_issued_def)
    next
      case (Inr k)
      with False ex c show ?thesis
        by (simp add: create_user_def get_db_connection_def Let_def close_def commit_def ids_issued_def)
    qed
  qed
qed

lemma execute_update_ids:
  assumes "execute_update un em k conn w = (r, conn', w')"
    and "list_all (\<lambda>row. uid row < n) conn"
  shows "list_all (\<lambda>row. uid row < n) conn' \<and> users w' = users w \<and> users_id_seq w' = users_id_seq w"
  using assms
  by (auto simp: execute_update_def logged_def Let_def list_all_iff
      split: sum.splits option.splits if_splits)

lemma ids_issued_update_user: "ids_issued w \<Longrightarrow> ids_issued (snd (update_user k data w))"
proof -
  assume inv: "ids_issued w"
  show ?thesis
  proof (cases "(py_not (data ''username'') \<and> py_not (data ''email'')) \<or> \<not> db_up w")
    case True
    with inv show ?thesis
      by (auto simp: update_user_def get_db_connection_def Let_def)
  next
    case False
    obtain r conn' w' where ex: "execute_update (data ''username'') (data ''email'') k (users w) w = (r, conn', w')"
      by (cases "execute_update (data ''username'') (data ''email'') k (users w) w") auto
    have c: "list_all (\<lambda>row. uid row < users_id_seq w) conn'" "users w' = users w"
      "users_id_seq w' = users_id_seq w"
      using execute_update_ids [OF ex, of "users_id_seq w"] inv by (simp_all add: ids_issued_def)
    show ?thesis
    proof (cases r)
      case (Inl e)
      with False ex c inv show ?thesis
        by (simp add: update_user_def get_db_connection_def Let_def close_def rollback_def ids_issued_def)
    next
      case (Inr n)
      with False ex c inv show ?thesis
        by (simp add: update_user_def get_db_connection_def Let_def close_def rollback_def commit_def
            ids_issued_def redis_delete_def)
    qed
  qed
qed

lemma update_user_absent:
  assumes "db_up w" "k \<notin> set (map uid (users w))" "v \<noteq> []"
    and "(data ''username'' = Some v \<and> data ''email'' = None \<and> length v \<le> 80) \<or>
         (data ''username'' = None \<and> data ''email'' = Some v \<and> length v \<le> 120)"
  shows "update_user k data w =
     ((Obj [(''error'', Str ''User not found'')], 404),
      logged (UPDATE (data ''username'') (data ''email'') k) w)"
  using assms(1,3,4) no_row_with_id [OF assms(2)]
  by (auto simp add: update_user_def store_defs)

lemma list_users_db_down:
  assumes "\<not> db_up w" "\<not> redis_client w \<or> (redis_up w \<and> live ''all_users'' now w = None)"
  shows "list_users now w = ((Obj [(''error'', Str ''Database unavailable'')], 503), w)"
  using assms by (auto simp add: list_users_def list_users_db_def redis_get_def store_defs)

lemma execute_update_frame:
  assumes "execute_update un em k conn w = (Inr n, conn', w')" and "n \<noteq> 0"
  shows "\<exists>u e. varchar 80 un = Inr (Some u) \<and> varchar 120 em = Inr (Some e)
      \<and> conn' = filter (\<lambda>row. uid row \<noteq> k) conn
                @ map (\<lambda>row. row\<lparr>username := u, email := e\<rparr>) (filter (\<lambda>row. uid row = k) conn)"
  using assms
  by (auto simp: execute_update_def logged_def Let_def split: sum.splits option.splits if_splits)

lemma moved_rows:
  fixes k :: int
  assumes "rows' = filter (\<lambda>row. uid row \<noteq> k) rows
      @ map (\<lambda>row. row\<lparr>username := u, email := e\<rparr>) (filter (\<lambda>row. uid row = k) rows)"
  shows "filter (\<lambda>row. uid row = k) rows' =
      map (\<lambda>row. row\<lparr>username := u, email := e\<rparr>) (filter (\<lambda>row. uid row = k) rows)"
    and "filter (\<lambda>row. uid row \<noteq> k) rows' = filter (\<lambda>row. uid row \<noteq> k) rows"
    and "set (map uid rows') = set (map uid rows)"
    and "length rows' = length rows"
proof -
  show "filter (\<lambda>row. uid row = k) rows' =
      map (\<lambda>row. row\<lparr>username := u, email := e\<rparr>) (filter (\<lambda>row. uid row = k) rows)"
    unfolding assms by (induction rows) (auto simp: filter_map comp_def)
  show "filter (\<lambda>row. uid row \<noteq> k) rows' = filter (\<lambda>row. uid row \<noteq> k) rows"
    unfolding assms by (induction rows) (auto simp: filter_map comp_def)
  show "set (map uid rows') = set (map uid rows)"
    unfolding assms by (auto simp: image_iff)
  show "length rows' = length rows"
    unfolding assms using sum_length_filter_compl [of "\<lambda>row. uid row = k" rows]
    by (simp add: add.commute)
qed

subsection \<open>The claims\<close>

text \<open>
  C1. Every successful create, update or delete deletes the cached list before the handler
  returns, so that the next list request shows the change within the old snapshot's
  time-to-live. \<open>update_user\<close> and \<open>delete_user\<close> do so (\<open>update_user_invalidates\<close>,
  \<open>delete_user_invalidates\<close>); \<open>create_user\<close> has no such call. On the empty table a list
  request at instant 0 caches the empty list until 30; creating Alice then answers 201 and
  stores her row, the snapshot stays, and the list request at instant 1 still answers the
  empty list.
\<close>

theorem create_user_leaves_snapshot:
  "fst (list_users 0 init_world) = (Arr [], 200)
   \<and> fst (create_user alice w_listed) =
       (Obj [(''id'', Num 1), (''username'', Str ''alice''), (''email'', Str ''a@x.com'')], 201)
   \<and> users (snd (create_user alice w_listed)) = [alice_row]
   \<and> live ''all_users'' 1 (snd (create_user alice w_listed)) = Some (Arr [])
   \<and> fst (list_users 1 (snd (create_user alice w_listed))) = (Arr [], 200)"
  by (simp add: w_listed_def alice_def alice_row_def init_world_def create_user_def
      list_users_def list_users_db_def jsonify_def store_defs cache_defs)

text \<open>
  C2. Every list request returns a snapshot that has not expired without a store query,
  and otherwise queries the store, caches the result for 30 and returns it. As stated
  this fails where the client object is absent (the ping at start-up failed): with
  Alice and Carol stored and no snapshot, the handler queries the store and returns both
  rows, and nothing is written to the cache.
\<close>

theorem list_users_without_client_counterexample:
  "live ''all_users'' 0 (w_two\<lparr>redis_client := False\<rparr>) = None
   \<and> fst (list_users 0 (w_two\<lparr>redis_client := False\<rparr>)) =
       (Arr [Obj [(''id'', Num 1), (''username'', Str ''alice''), (''email'', Str ''a@x.com'')],
             Obj [(''id'', Num 2), (''username'', Str ''carol''), (''email'', Str ''c@x.com'')]], 200)
   \<and> statements (snd (list_users 0 (w_two\<lparr>redis_client := False\<rparr>))) = [SELECT_ALL]
   \<and> redis (snd (list_users 0 (w_two\<lparr>redis_client := False\<rparr>))) ''all_users'' = None"
  by (simp add: w_two_def list_users_def list_users_db_def jsonify_def row_dict_def
      store_defs cache_defs)

text \<open>
  C2, as the code has it. With the client present and Redis answering: a snapshot that
  has not expired is returned and the world is as before, so no statement reached the
  store, reachable or not; with no such snapshot and the store reachable, the one query
  for all rows runs, its result (each row as its id, username and email) is stored under
  \<open>all_users\<close> to expire 30 after \<open>now\<close>, and returned. With the client absent and
  the store reachable, the query runs and its result is returned, the cache untouched.
  With the store unreachable, on either path that needs it, the answer is 503 and the
  world is as before.
\<close>

theorem list_users_read_through:
  assumes "listed = Arr (map (\<lambda>row. Obj [(''id'', Num (uid row)),
      (''username'', Str (username row)), (''email'', Str (email row))]) (users w))"
  shows "(redis_client w \<and> redis_up w \<and> live ''all_users'' now w = Some v \<longrightarrow>
        list_users now w = ((v, 200), w))
    \<and> (redis_client w \<and> redis_up w \<and> live ''all_users'' now w = None \<and> db_up w \<longrightarrow>
        list_users now w =
          ((listed, 200),
           w\<lparr>statements := statements w @ [SELECT_ALL],
             redis := (redis w)(''all_users'' \<mapsto> (listed, now + 30))\<rparr>))
    \<and> (\<not> redis_client w \<and> db_up w \<longrightarrow>
        list_users now w = ((listed, 200), w\<lparr>statements := statements w @ [SELECT_ALL]\<rparr>))
    \<and> ((\<not> redis_client w \<or> (redis_up w \<and> live ''all_users'' now w = None)) \<and> \<not> db_up w \<longrightarrow>
        list_users now w = ((Obj [(''error'', Str ''Database unavailable'')], 503), w))"
proof -
  have l: "listed = Arr (map row_dict (users w))"
    using assms by (simp add: row_dict_def)
  show ?thesis
    using list_users_hit [of w now v] list_users_miss [of w now] list_users_no_client [of w now]
      list_users_db_down [of w now]
    by (auto simp: l logged_def)
qed

theorem list_users_read_through_witness:
  "list_users 29 (w_two\<lparr>redis := [''all_users'' \<mapsto> (Arr [Str ''stale''], 30)]\<rparr>) =
       ((Arr [Str ''stale''], 200), w_two\<lparr>redis := [''all_users'' \<mapsto> (Arr [Str ''stale''], 30)]\<rparr>)
   \<and> fst (list_users 30 (w_two\<lparr>redis := [''all_users'' \<mapsto> (Arr [Str ''stale''], 30)]\<rparr>)) =
       (Arr [Obj [(''id'', Num 1), (''username'', Str ''alice''), (''email'', Str ''a@x.com'')],
             Obj [(''id'', Num 2), (''username'', Str ''carol''), (''email'', Str ''c@x.com'')]], 200)
   \<and> statements (snd (list_users 30 (w_two\<lparr>redis := [''all_users'' \<mapsto> (Arr [Str ''stale''], 30)]\<rparr>)))
       = [SELECT_ALL]
   \<and> redis (snd (list_users 30 (w_two\<lparr>redis := [''all_users'' \<mapsto> (Arr [Str ''stale''], 30)]\<rparr>)))
         ''all_users'' =
       Some (Arr [Obj [(''id'', Num 1), (''username'', Str ''alice''), (''email'', Str ''a@x.com'')],
                  Obj [(''id'', Num 2), (''username'', Str ''carol''), (''email'', Str ''c@x.com'')]], 60)
   \<and> list_users 5 (w_two\<lparr>db_up := False\<rparr>) =
       ((Obj [(''error'', Str ''Database unavailable'')], 503), w_two\<lparr>db_up := False\<rparr>)"
proof -
  let ?w = "w_two\<lparr>redis := [''all_users'' \<mapsto> (Arr [Str ''stale''], 30)]\<rparr>"
  let ?rows = "Arr [Obj [(''id'', Num 1), (''username'', Str ''alice''), (''email'', Str ''a@x.com'')],
                    Obj [(''id'', Num 2), (''username'', Str ''carol''), (''email'', Str ''c@x.com'')]]"
  have rows: "?rows = Arr (map (\<lambda>row. Obj [(''id'', Num (uid row)),
      (''username'', Str (username row)), (''email'', Str (email row))]) (users ?w))"
    by (simp add: w_two_def)
  have rows': "?rows = Arr (map (\<lambda>row. Obj [(''id'', Num (uid row)),
      (''username'', Str (username row)), (''email'', Str (email row))]) (users (w_two\<lparr>db_up := False\<rparr>)))"
    by (simp add: w_two_def)
  have env: "redis_client ?w" "redis_up ?w" "db_up ?w" "statements ?w = []"
    by (simp_all add: w_two_def)
  have hit: "live ''all_users'' 29 ?w = Some (Arr [Str ''stale''])"
    and miss: "live ''all_users'' 30 ?w = None"
    by (simp_all add: live_def)
  have down: "\<not> db_up (w_two\<lparr>db_up := False\<rparr>)" "redis_client (w_two\<lparr>db_up := False\<rparr>)"
    "redis_up (w_two\<lparr>db_up := False\<rparr>)" "live ''all_users'' 5 (w_two\<lparr>db_up := False\<rparr>) = None"
    by (simp_all add: w_two_def live_def)
  have 1: "list_users 29 ?w = ((Arr [Str ''stale''], 200), ?w)"
    using list_users_read_through [OF rows, of 29 "Arr [Str ''stale'']"] env hit by blast
  have 2: "list_users 30 ?w =
      ((?rows, 200),
       ?w\<lparr>statements := statements ?w @ [SELECT_ALL],
          redis := (redis ?w)(''all_users'' \<mapsto> (?rows, 30 + 30))\<rparr>)"
    using list_users_read_through [OF rows, of 30] env miss by blast
  have 3: "list_users 5 (w_two\<lparr>db_up := False\<rparr>) =
      ((Obj [(''error'', Str ''Database unavailable'')], 503), w_two\<lparr>db_up := False\<rparr>)"
    using list_users_read_through [OF rows', of 5] down by blast
  show ?thesis using 1 3 env(4) by (simp add: 2)
qed

text \<open>
  C3. When the cache cannot be reached at the invalidation after a committed mutation, the
  mutation still answers success. With the client object present and Redis not answering,
  \<open>redis_client.delete\<close> raises inside the handler's \<open>try\<close>: the update of Alice to Bob is
  committed and the answer is 500, and so is the delete of Alice.
\<close>

theorem mutation_fails_when_redis_raises:
  "fst (update_user 1 bob w_redis_down) = (Obj [(''error'', Str_of RedisConnectionError)], 500)
   \<and> users (snd (update_user 1 bob w_redis_down)) =
       [\<lparr>uid = 1, username = ''bob'', email = ''b@x.com''\<rparr>]
   \<and> fst (delete_user 1 w_redis_down) = (Obj [(''error'', Str_of RedisConnectionError)], 500)
   \<and> users (snd (delete_user 1 w_redis_down)) = []"
  by (simp add: w_redis_down_def w_alice_def alice_row_def bob_def update_user_def
      delete_user_def except_exception_def store_defs cache_defs)

text \<open>
  C4. Every create request whose username or email is already stored answers 409 and
  leaves the store as it was. As stated this fails where the other field does not fit its
  column: Alice's username with an email of 121 characters raises a data error before
  the uniqueness check, and the answer is 500.
\<close>

theorem create_user_duplicate_long_email_counterexample:
  "same_name_long_email ''username'' = Some ''alice''
   \<and> ''alice'' \<in> set (map username (users w_alice))
   \<and> fst (create_user same_name_long_email w_alice) = (Obj [(''error'', Str_of DataError)], 500)"
  by (simp add: same_name_long_email_def w_alice_def alice_row_def create_user_def store_defs)

text \<open>
  C4, as the code has it. A create request with both fields non-empty and each within
  its column (username 80, email 120), the sequence not exhausted and the store
  reachable, whose username or email is already stored answers 409 with the uniqueness
  message; the table and the cache are as before.
\<close>

theorem create_user_duplicate:
  assumes "db_up w" and "data ''username'' = Some un" and "data ''email'' = Some em"
    and "un \<noteq> []" and "em \<noteq> []" and "length un \<le> 80" and "length em \<le> 120"
    and "un \<in> set (map username (users w)) \<or> em \<in> set (map email (users w))"
    and "users_id_seq w \<le> 2147483647"
  shows "fst (create_user data w) = (Obj [(''error'', Str ''Username or Email already exists'')], 409)
    \<and> users (snd (create_user data w)) = users w
    \<and> redis (snd (create_user data w)) = redis w"
  by (simp add: create_user_refused [OF assms])

theorem create_user_duplicate_witness:
  "db_up w_two \<and> ''alice'' \<in> set (map username (users w_two))
   \<and> ''other@x.com'' \<notin> set (map email (users w_two))
   \<and> fst (create_user same_name w_two) =
       (Obj [(''error'', Str ''Username or Email already exists'')], 409)
   \<and> users (snd (create_user same_name w_two)) =
       [\<lparr>uid = 1, username = ''alice'', email = ''a@x.com''\<rparr>,
        \<lparr>uid = 2, username = ''carol'', email = ''c@x.com''\<rparr>]"
proof -
  have d: "db_up w_two" and q: "users_id_seq w_two \<le> 2147483647"
    by (simp_all add: w_two_def)
  have un: "same_name ''username'' = Some ''alice''" and em: "same_name ''email'' = Some ''other@x.com''"
    by (simp_all add: same_name_def)
  have dup: "''alice'' \<in> set (map username (users w_two))
      \<or> ''other@x.com'' \<in> set (map email (users w_two))"
    by (simp add: w_two_def)
  from create_user_duplicate [OF d un em _ _ _ _ dup q]
  have "fst (create_user same_name w_two) =
        (Obj [(''error'', Str ''Username or Email already exists'')], 409)
      \<and> users (snd (create_user same_name w_two)) = users w_two"
    by simp
  then show ?thesis by (simp add: w_two_def)
qed

text \<open>
  C5. A delete request for an id that no row has, with the store reachable, answers 404;
  the table and the cache, the snapshot included, are as before.
\<close>

theorem delete_user_missing:
  assumes "db_up w" and "user_id \<notin> set (map uid (users w))"
  shows "fst (delete_user user_id w) = (Obj [(''error'', Str ''User not found'')], 404)
    \<and> redis (snd (delete_user user_id w)) = redis w
    \<and> users (snd (delete_user user_id w)) = users w"
  by (simp add: delete_user_not_found [OF assms] logged_def)

theorem delete_user_missing_witness:
  "db_up w_alice \<and> 7 \<notin> set (map uid (users w_alice))
   \<and> fst (delete_user 7 w_alice) = (Obj [(''error'', Str ''User not found'')], 404)
   \<and> redis (snd (delete_user 7 w_alice)) ''all_users'' = Some (Arr [row_dict alice_row], 30)
   \<and> users (snd (delete_user 7 w_alice)) = [alice_row]"
proof -
  have d: "db_up w_alice" by (simp add: w_alice_def)
  have m: "7 \<notin> set (map uid (users w_alice))" by (simp add: w_alice_def alice_row_def)
  from delete_user_missing [OF d m] d m show ?thesis by (simp add: w_alice_def)
qed

text \<open>
  C6. When the cache cannot be reached at a list request, the request falls through to
  the store and never fails. With the client object present and Redis not answering,
  \<open>redis_client.get\<close> raises before the handler's \<open>try\<close>: the answer is 500 and no
  statement reaches the store, which holds Alice and answers. Only an absent client is
  treated as a miss.
\<close>

theorem list_users_fails_when_redis_raises:
  "db_up w_redis_down
   \<and> list_users 0 w_redis_down = ((Flask_error_page, 500), w_redis_down)
   \<and> fst (list_users 0 (w_redis_down\<lparr>redis_client := False\<rparr>)) = (Arr [row_dict alice_row], 200)"
  by (simp add: w_redis_down_def w_alice_def list_users_def list_users_db_def jsonify_def
      store_defs cache_defs)

text \<open>
  C7. An update request in which neither field is provided (absent, null or empty, the
  test of the handler) answers 400 and the world is as before: no connection was opened
  and no statement ran.
\<close>

theorem update_user_no_data:
  assumes "py_not (data ''username'')" and "py_not (data ''email'')"
  shows "update_user user_id data w =
    ((Obj [(''error'', Str ''No data provided for update'')], 400), w)"
  using assms by (simp add: update_user_def)

theorem update_user_no_data_witness:
  "py_not (Map.empty ''username'') \<and> py_not (Map.empty ''email'')
   \<and> update_user 1 Map.empty w_alice =
       ((Obj [(''error'', Str ''No data provided for update'')], 400), w_alice)"
proof -
  have a: "py_not ((Map.empty :: body) ''username'')" and b: "py_not ((Map.empty :: body) ''email'')"
    by simp_all
  from update_user_no_data [OF a b, of 1 w_alice] show ?thesis by simp
qed

text \<open>
  C8. For every valid pair with no stored duplicate, create answers 201 with a new id and
  get-by-id with that id returns exactly that username and email. As stated this fails
  for a pair the handler accepts whose username is longer than its column by spaces only:
  80 letters and a space are created with 201, the answer repeats the 81 characters,
  the store keeps the 80 letters, and get-by-id returns those.
\<close>

theorem create_padded_username_counterexample:
  "fst (create_user padded init_world) =
       (Obj [(''id'', Num 1), (''username'', Str (replicate 80 (CHR ''p'') @ '' '')),
             (''email'', Str ''p@x.com'')], 201)
   \<and> fst (get_user 1 (snd (create_user padded init_world))) =
       (Obj [(''id'', Num 1), (''username'', Str (replicate 80 (CHR ''p''))),
             (''email'', Str ''p@x.com'')], 200)
   \<and> replicate 80 (CHR ''p'') @ '' '' \<noteq> replicate 80 (CHR ''p'')"
  by (simp add: padded_def init_world_def create_user_def get_user_def jsonify_def
      row_dict_def store_defs)

text \<open>
  C8, as the code has it. A pair of a non-empty username of at most 80 characters and a
  non-empty email of at most 120 that duplicates no stored username or email, with the
  store reachable and the sequence not exhausted: create answers 201 with the next
  value of the sequence as id, an id that no stored row has, and get-by-id with that id
  then answers 200 with that id, username and email.
\<close>

theorem create_then_get:
  assumes "db_up w" and "ids_issued w" and "users_id_seq w \<le> 2147483647"
    and "data ''username'' = Some un" and "data ''email'' = Some em"
    and "un \<noteq> []" and "em \<noteq> []" and "length un \<le> 80" and "length em \<le> 120"
    and "un \<notin> set (map username (users w))" and "em \<notin> set (map email (users w))"
  shows "fst (create_user data w) =
      (Obj [(''id'', Num (users_id_seq w)), (''username'', Str un), (''email'', Str em)], 201)
    \<and> users_id_seq w \<notin> set (map uid (users w))
    \<and> fst (get_user (users_id_seq w) (snd (create_user data w))) =
      (Obj [(''id'', Num (users_id_seq w)), (''username'', Str un), (''email'', Str em)], 200)"
proof -
  let ?row = "\<lparr>uid = users_id_seq w, username = un, email = em\<rparr>"
  have fresh: "users_id_seq w \<notin> set (map uid (users w))"
    using assms(2) by (rule ids_issued_fresh)
  have created: "create_user data w =
     ((Obj [(''id'', Num (users_id_seq w)), (''username'', Str un), (''email'', Str em)], 201),
      w\<lparr>users := users w @ [?row], users_id_seq := users_id_seq w + 1,
        statements := statements w @ [INSERT (Some un) (Some em)]\<rparr>)"
    using assms(1) assms(4-11) fresh assms(3) by (rule create_user_created)
  have found: "find (\<lambda>row. uid row = users_id_seq w) (users w @ [?row]) = Some ?row"
    using fresh by (rule find_fresh_row) simp
  have "fst (get_user (users_id_seq w) (snd (create_user data w))) = (row_dict ?row, 200)"
    using assms(1) found by (simp add: created get_user_found)
  then show ?thesis using fresh by (simp add: created row_dict_def)
qed

theorem create_then_get_witness:
  "db_up w_two \<and> ids_issued w_two \<and> users_id_seq w_two = 3
   \<and> fst (create_user bob w_two) =
       (Obj [(''id'', Num 3), (''username'', Str ''bob''), (''email'', Str ''b@x.com'')], 201)
   \<and> 3 \<notin> set (map uid (users w_two))
   \<and> fst (get_user 3 (snd (create_user bob w_two))) =
       (Obj [(''id'', Num 3), (''username'', Str ''bob''), (''email'', Str ''b@x.com'')], 200)"
proof -
  have d: "db_up w_two" and i: "ids_issued w_two" and s: "users_id_seq w_two = 3"
    by (simp_all add: w_two_def ids_issued_def)
  have q: "users_id_seq w_two \<le> 2147483647" by (simp add: s)
  have un: "bob ''username'' = Some ''bob''" and em: "bob ''email'' = Some ''b@x.com''"
    by (simp_all add: bob_def)
  have nu: "''bob'' \<notin> set (map username (users w_two))"
    and ne: "''b@x.com'' \<notin> set (map email (users w_two))"
    by (simp_all add: w_two_def)
  from create_then_get [OF d i q un em _ _ _ _ nu ne] d i s
  show ?thesis by simp
qed

text \<open>
  C9. An update that answers 200 changes nothing but the username and email of the rows
  with the requested id: those rows are the old ones with the two stored values of the
  request put in, their id kept; the rows of every other id are the old ones, unchanged
  and in their old order; the ids in the table and the number of rows are as before.
\<close>

theorem update_user_frame:
  assumes "snd (fst (update_user user_id data w)) = 200"
  shows "\<exists>un em. varchar 80 (data ''username'') = Inr (Some un)
      \<and> varchar 120 (data ''email'') = Inr (Some em)
      \<and> filter (\<lambda>row. uid row = user_id) (users (snd (update_user user_id data w))) =
          map (\<lambda>row. row\<lparr>username := un, email := em\<rparr>)
            (filter (\<lambda>row. uid row = user_id) (users w))
      \<and> filter (\<lambda>row. uid row \<noteq> user_id) (users (snd (update_user user_id data w))) =
          filter (\<lambda>row. uid row \<noteq> user_id) (users w)
      \<and> set (map uid (users (snd (update_user user_id data w)))) = set (map uid (users w))
      \<and> length (users (snd (update_user user_id data w))) = length (users w)"
proof -
  obtain r conn' w' where
    ex: "execute_update (data ''username'') (data ''email'') user_id (users w) w = (r, conn', w')"
    by (cases "execute_update (data ''username'') (data ''email'') user_id (users w) w") auto
  from assms ex obtain n where r: "r = Inr n" and n: "n \<noteq> 0"
    and after: "users (snd (update_user user_id data w)) = conn'"
    by (cases r) (auto simp: update_user_def get_db_connection_def Let_def commit_def close_def
        rollback_def redis_delete_def jsonify_def except_integrity_status
        split: if_splits)
  from execute_update_frame [OF ex [unfolded r] n] obtain u e where
    un: "varchar 80 (data ''username'') = Inr (Some u)"
    and em: "varchar 120 (data ''email'') = Inr (Some e)"
    and c: "conn' = filter (\<lambda>row. uid row \<noteq> user_id) (users w)
        @ map (\<lambda>row. row\<lparr>username := u, email := e\<rparr>)
            (filter (\<lambda>row. uid row = user_id) (users w))"
    by blast
  from moved_rows [OF c] un em show ?thesis
    unfolding after by blast
qed

theorem update_user_frame_witness:
  "snd (fst (update_user 1 bob w_two)) = 200
   \<and> filter (\<lambda>row. uid row = 1) (users (snd (update_user 1 bob w_two))) =
       [\<lparr>uid = 1, username = ''bob'', email = ''b@x.com''\<rparr>]
   \<and> filter (\<lambda>row. uid row \<noteq> 1) (users (snd (update_user 1 bob w_two))) =
       [\<lparr>uid = 2, username = ''carol'', email = ''c@x.com''\<rparr>]
   \<and> set (map uid (users (snd (update_user 1 bob w_two)))) = {1, 2}
   \<and> length (users (snd (update_user 1 bob w_two))) = 2"
proof -
  have ok: "snd (fst (update_user 1 bob w_two)) = 200"
    by (simp add: w_two_def bob_def update_user_def jsonify_def store_defs cache_defs)
  have un: "varchar 80 (bob ''username'') = Inr (Some ''bob'')"
    and em: "varchar 120 (bob ''email'') = Inr (Some ''b@x.com'')"
    by (simp_all add: bob_def varchar_def)
  from update_user_frame [OF ok] obtain a b where
    "varchar 80 (bob ''username'') = Inr (Some a)" "varchar 120 (bob ''email'') = Inr (Some b)"
    "filter (\<lambda>row. uid row = 1) (users (snd (update_user 1 bob w_two))) =
       map (\<lambda>row. row\<lparr>username := a, email := b\<rparr>) (filter (\<lambda>row. uid row = 1) (users w_two))"
    "filter (\<lambda>row. uid row \<noteq> 1) (users (snd (update_user 1 bob w_two))) =
       filter (\<lambda>row. uid row \<noteq> 1) (users w_two)"
    "set (map uid (users (snd (update_user 1 bob w_two)))) = set (map uid (users w_two))"
    "length (users (snd (update_user 1 bob w_two))) = length (users w_two)"
    by blast
  with un em ok show ?thesis by (auto simp add: w_two_def)
qed

text \<open>
  C10. Every update request that gives exactly one of the two fields fails with 409 on
  \<open>NOT NULL\<close>. As stated this fails for an id that no row has: the statement writes no
  row, so no constraint is checked, and the answer is 404.
\<close>

theorem update_one_field_absent_id_counterexample:
  "only_bob ''username'' = Some ''bob'' \<and> only_bob ''email'' = None
   \<and> 7 \<notin> set (map uid (users w_alice))
   \<and> fst (update_user 7 only_bob w_alice) = (Obj [(''error'', Str ''User not found'')], 404)"
  by (simp add: only_bob_def w_alice_def alice_row_def update_user_def store_defs)

text \<open>
  C10, as the code has it. An update request that gives exactly one of the two fields,
  non-empty and within its column, with the store reachable, is no partial update: the
  statement assigns both columns, the missing one as null. For a stored id \<open>NOT NULL\<close>
  refuses it and the answer is 409 with the uniqueness message; for an id that no row has
  the answer is 404. Either way the table and the cache are as before.
\<close>

theorem update_user_one_field:
  assumes "db_up w" and "v \<noteq> []"
    and "(data ''username'' = Some v \<and> data ''email'' = None \<and> length v \<le> 80) \<or>
         (data ''username'' = None \<and> data ''email'' = Some v \<and> length v \<le> 120)"
  shows "(user_id \<in> set (map uid (users w)) \<longrightarrow>
        fst (update_user user_id data w) =
          (Obj [(''error'', Str ''Username or Email already exists'')], 409))
    \<and> (user_id \<notin> set (map uid (users w)) \<longrightarrow>
        fst (update_user user_id data w) = (Obj [(''error'', Str ''User not found'')], 404))
    \<and> statements (snd (update_user user_id data w)) =
      statements w @ [UPDATE (data ''username'') (data ''email'') user_id]
    \<and> users (snd (update_user user_id data w)) = users w
    \<and> redis (snd (update_user user_id data w)) = redis w"
proof (cases "user_id \<in> set (map uid (users w))")
  case True
  from update_user_rejected [OF assms(1) True assms(2,3)] True show ?thesis
    by (simp add: logged_def)
next
  case False
  from update_user_absent [OF assms(1) False assms(2,3)] False show ?thesis
    by (simp add: logged_def)
qed

theorem update_user_one_field_witness:
  "db_up w_two \<and> only_bob ''username'' = Some ''bob'' \<and> only_bob ''email'' = None
   \<and> fst (update_user 1 only_bob w_two) =
       (Obj [(''error'', Str ''Username or Email already exists'')], 409)
   \<and> statements (snd (update_user 1 only_bob w_two)) = [UPDATE (Some ''bob'') None 1]
   \<and> users (snd (update_user 1 only_bob w_two)) =
       [\<lparr>uid = 1, username = ''alice'', email = ''a@x.com''\<rparr>,
        \<lparr>uid = 2, username = ''carol'', email = ''c@x.com''\<rparr>]
   \<and> fst (update_user 7 only_bob w_two) = (Obj [(''error'', Str ''User not found'')], 404)
   \<and> users (snd (update_user 7 only_bob w_two)) =
       [\<lparr>uid = 1, username = ''alice'', email = ''a@x.com''\<rparr>,
        \<lparr>uid = 2, username = ''carol'', email = ''c@x.com''\<rparr>]"
proof -
  have d: "db_up w_two" by (simp add: w_two_def)
  have i: "1 \<in> set (map uid (users w_two))" and j: "7 \<notin> set (map uid (users w_two))"
    by (simp_all add: w_two_def)
  have n: "''bob'' \<noteq> []" by simp
  have un: "only_bob ''username'' = Some ''bob''" and em: "only_bob ''email'' = None"
    by (simp_all add: only_bob_def)
  have f: "(only_bob ''username'' = Some ''bob'' \<and> only_bob ''email'' = None \<and> length ''bob'' \<le> 80) \<or>
      (only_bob ''username'' = None \<and> only_bob ''email'' = Some ''bob'' \<and> length ''bob'' \<le> 120)"
    using un em by simp
  have s: "statements w_two = []"
    and u: "users w_two = [\<lparr>uid = 1, username = ''alice'', email = ''a@x.com''\<rparr>,
        \<lparr>uid = 2, username = ''carol'', email = ''c@x.com''\<rparr>]"
    by (simp_all add: w_two_def)
  from update_user_one_field [OF d n f, of 1] update_user_one_field [OF d n f, of 7] d i j
  show ?thesis by (simp add: un em s u)
qed

end
